theory Spec2Isabelle
  imports Main
begin

section \<open>The screen-sharing session component\<close>

text \<open>
  The program is one React function component, \<open>App\<close>. Its data are seven \<open>useState\<close>
  cells, four \<open>useRef\<close> cells, the objects of the PeerJS and browser libraries it holds
  (peers, data connections, media calls, media streams) and the callbacks it has registered
  on them.

  The model is explicit state passing. One \<open>state\<close> record holds the React cells, the refs,
  the part of the library objects the code reads (\<open>conn.open\<close>), the record of every library
  call made so far (\<open>trace\<close>, newest first) and the registered callbacks.

  A callback is a closure. A function defined in the component body reads the \<open>useState\<close>
  values of the render that created it, not the values current when it runs; only refs
  (\<open>x.current\<close>) are read live. \<open>stopScreenShare\<close> reads \<open>stream\<close> this way, so every
  place that keeps a \<open>stopScreenShare\<close> closure keeps the value of \<open>stream\<close> it was built
  with: the model passes that value as the parameter \<open>cap\<close> and stores it with the callback.
  Object identities are natural numbers drawn from \<open>nextId\<close>.

  The libraries are not part of the program. A library call is recorded in \<open>trace\<close> and
  hands back its object; whatever a library fires, also from inside one of its own calls
  (\<open>close\<close> after \<open>conn.close()\<close>, say), reaches the component as an event of its own.
\<close>

datatype mode = Landing | Share | View

datatype status = Disconnected | Connecting | Connected

text \<open>Library calls the component makes, in the order it makes them.\<close>

datatype effect =
    NewPeer nat                   \<comment> \<open>\<open>new Peer()\<close>, the object created\<close>
  | DestroyPeer nat               \<comment> \<open>\<open>peer.destroy()\<close>\<close>
  | Connect nat string nat        \<comment> \<open>\<open>peer.connect(remotePeerId)\<close>: peer, target, the connection returned\<close>
  | CloseConn nat                 \<comment> \<open>\<open>conn.close()\<close>\<close>
  | PlaceCall nat nat nat nat     \<comment> \<open>\<open>peer.call(conn.peer, mediaStream)\<close>: peer, connection, stream, the call returned\<close>
  | AnswerCall nat                \<comment> \<open>\<open>call.answer()\<close>\<close>
  | CloseCall nat                 \<comment> \<open>\<open>call.close()\<close>\<close>
  | StopTracks nat                \<comment> \<open>\<open>getTracks().forEach(track => track.stop())\<close> on a stream\<close>
  | GetDisplayMedia nat           \<comment> \<open>\<open>getDisplayMedia(...)\<close>, the pending request\<close>
  | WriteClipboard string         \<comment> \<open>\<open>navigator.clipboard.writeText(peerId)\<close>\<close>

text \<open>The callbacks registered on a data connection and on a media call, by the place
  that registered them.\<close>

datatype conn_handler =
    ShareConn "nat option"   \<comment> \<open>registered in \<open>peer.on('connection')\<close>; holds a \<open>stopScreenShare\<close> closure\<close>
  | ViewConn                 \<comment> \<open>registered in \<open>connectToPeer\<close>\<close>

datatype call_handler =
    ViewCall                 \<comment> \<open>registered in the viewer's \<open>peer.on('call')\<close>: stream, close, error\<close>
  | ShareCall                \<comment> \<open>registered in \<open>startScreenShare\<close>: error only\<close>

record state =
  mode :: mode
  peerId :: string
  remotePeerId :: string
  connectionStatus :: status
  copied :: bool
  error :: "string option"
  stream :: "nat option"
  peerRef :: "nat option"
  videoRef :: "nat option option"   \<comment> \<open>\<open>None\<close>: no video element mounted; \<open>Some src\<close>: its \<open>srcObject\<close>\<close>
  connectionRef :: "nat option"
  callRef :: "nat option"
  openConns :: "nat set"            \<comment> \<open>the connections whose \<open>open\<close> property is true\<close>
  trace :: "effect list"
  nextId :: nat
  effectCleanup :: "(nat \<times> nat option) option"  \<comment> \<open>cleanup of the running effect: its \<open>peer\<close>, its \<open>stream\<close>\<close>
  peerHandlers :: "nat \<rightharpoonup> (mode \<times> nat option)"
  connHandlers :: "nat \<rightharpoonup> conn_handler"
  callHandlers :: "nat \<rightharpoonup> call_handler"
  endedHandlers :: "nat \<rightharpoonup> nat option"     \<comment> \<open>\<open>onended\<close> of a captured stream\<close>
  pending :: "nat \<rightharpoonup> nat option"           \<comment> \<open>\<open>startScreenShare\<close> calls suspended at \<open>await\<close>\<close>

definition init_state :: state where
  "init_state = \<lparr> mode = Landing, peerId = [], remotePeerId = [],
     connectionStatus = Disconnected, copied = False, error = None, stream = None,
     peerRef = None, videoRef = None, connectionRef = None, callRef = None,
     openConns = {}, trace = [], nextId = 0, effectCleanup = None,
     peerHandlers = Map.empty, connHandlers = Map.empty, callHandlers = Map.empty,
     endedHandlers = Map.empty, pending = Map.empty \<rparr>"

definition emit :: "effect \<Rightarrow> state \<Rightarrow> state" where
  "emit e s = s\<lparr>trace := e # trace s\<rparr>"

subsection \<open>The functions of the component\<close>

text \<open>\<open>stopScreenShare\<close> (lines 164-180). \<open>cap\<close> is the \<open>stream\<close> of its closure.\<close>

definition stopScreenShare :: "nat option \<Rightarrow> state \<Rightarrow> state" where
  "stopScreenShare cap s =
    (let s1 = (case cap of
                 Some m \<Rightarrow> (emit (StopTracks m) s)\<lparr>stream := None\<rparr>
               | None \<Rightarrow> s);
         s2 = (case videoRef s1 of
                 Some (Some v) \<Rightarrow> (emit (StopTracks v) s1)\<lparr>videoRef := Some None\<rparr>
               | _ \<Rightarrow> s1)
     in (case callRef s2 of
           Some k \<Rightarrow> (emit (CloseCall k) s2)\<lparr>callRef := None\<rparr>
         | None \<Rightarrow> s2))"

text \<open>\<open>startScreenShare\<close> (lines 120-161) up to its \<open>await\<close>: the request is left pending
  together with the closure that will resume.\<close>

definition startScreenShare :: "nat option \<Rightarrow> state \<Rightarrow> state" where
  "startScreenShare cap s =
    (let s1 = stopScreenShare cap s; n = nextId s1
     in (emit (GetDisplayMedia n) s1)\<lparr>pending := (pending s1)(n \<mapsto> cap), nextId := Suc n\<rparr>)"

text \<open>The rest of \<open>startScreenShare\<close> once \<open>getDisplayMedia\<close> has resolved with stream \<open>m\<close>
  (lines 131-156). A stream asked for with \<open>video: true\<close> has a video track.\<close>

definition startScreenShare_resolved :: "nat option \<Rightarrow> nat \<Rightarrow> state \<Rightarrow> state" where
  "startScreenShare_resolved cap m s =
    (let s1 = s\<lparr>stream := Some m\<rparr>;
         s2 = (case videoRef s1 of Some _ \<Rightarrow> s1\<lparr>videoRef := Some (Some m)\<rparr> | None \<Rightarrow> s1);
         s3 = s2\<lparr>endedHandlers := (endedHandlers s2)(m \<mapsto> cap)\<rparr>
     in (case (connectionRef s3, peerRef s3) of
           (Some c, Some p) \<Rightarrow>
             if c \<in> openConns s3
             then let k = nextId s3
                  in (emit (PlaceCall p c m k) s3)
                       \<lparr>callRef := Some k, callHandlers := (callHandlers s3)(k \<mapsto> ShareCall),
                        nextId := Suc k\<rparr>
             else s3\<lparr>error := Some ''No viewer connected. Please wait for someone to connect before sharing.''\<rparr>
         | _ \<Rightarrow> s3\<lparr>error := Some ''No viewer connected. Please wait for someone to connect before sharing.''\<rparr>))"

text \<open>The \<open>catch\<close> of \<open>startScreenShare\<close> (lines 157-160), when \<open>getDisplayMedia\<close> rejects.\<close>

definition startScreenShare_rejected :: "state \<Rightarrow> state" where
  "startScreenShare_rejected s =
     s\<lparr>error := Some ''Failed to access screen. Please make sure you grant permission.''\<rparr>"

text \<open>\<open>connectToPeer\<close> (lines 183-226). \<open>thrown\<close> is \<open>None\<close> when \<open>peer.connect\<close>
  returns a connection, and \<open>Some msg\<close> when the guarded block throws an \<open>err\<close> that
  prints as \<open>msg\<close>.\<close>

definition connectToPeer :: "string option \<Rightarrow> state \<Rightarrow> state" where
  "connectToPeer thrown s =
    (if remotePeerId s = [] then s
     else case peerRef s of
       None \<Rightarrow> s
     | Some p \<Rightarrow>
          let s1 = s\<lparr>connectionStatus := Connecting, error := None\<rparr>;
              s2 = (case connectionRef s1 of
                      Some c \<Rightarrow> (emit (CloseConn c) s1)\<lparr>openConns := openConns s1 - {c}\<rparr>
                    | None \<Rightarrow> s1)
          in (case thrown of
                None \<Rightarrow>
                  let n = nextId s2
                  in (emit (Connect p (remotePeerId s) n) s2)
                       \<lparr>connectionRef := Some n, connHandlers := (connHandlers s2)(n \<mapsto> ViewConn),
                        nextId := Suc n\<rparr>
              | Some msg \<Rightarrow>
                  s2\<lparr>error := Some (''Failed to connect: '' @ msg),
                     connectionStatus := Disconnected\<rparr>))"

text \<open>\<open>copyPeerId\<close> (lines 229-241); the promise settles later.\<close>

definition copyPeerId :: "state \<Rightarrow> state" where
  "copyPeerId s = (if peerId s \<noteq> [] then emit (WriteClipboard (peerId s)) s else s)"

text \<open>\<open>disconnect\<close> (lines 244-260). Its \<open>stopScreenShare\<close> is the one of the render whose
  button was pressed, so it reads the current \<open>stream\<close>.\<close>

definition disconnect :: "state \<Rightarrow> state" where
  "disconnect s =
    (let s1 = (case connectionRef s of
                 Some c \<Rightarrow> (emit (CloseConn c) s)\<lparr>openConns := openConns s - {c}, connectionRef := None\<rparr>
               | None \<Rightarrow> s);
         s2 = (case callRef s1 of
                 Some k \<Rightarrow> (emit (CloseCall k) s1)\<lparr>callRef := None\<rparr>
               | None \<Rightarrow> s1);
         s3 = stopScreenShare (stream s) s2
     in s3\<lparr>connectionStatus := Disconnected, mode := Landing, error := None, remotePeerId := []\<rparr>)"

subsection \<open>The effect on \<open>mode\<close>\<close>

text \<open>The cleanup returned by the effect (lines 106-115). It closes without clearing the
  refs, and its \<open>stopScreenShare\<close> and \<open>peer\<close> are those of the effect's closure.\<close>

definition cleanup :: "nat \<Rightarrow> nat option \<Rightarrow> state \<Rightarrow> state" where
  "cleanup p cap s =
    (let s1 = (case connectionRef s of
                 Some c \<Rightarrow> (emit (CloseConn c) s)\<lparr>openConns := openConns s - {c}\<rparr>
               | None \<Rightarrow> s);
         s2 = (case callRef s1 of Some k \<Rightarrow> emit (CloseCall k) s1 | None \<Rightarrow> s1)
     in emit (DestroyPeer p) (stopScreenShare cap s2))"

text \<open>The effect body when \<open>mode\<close> is not \<open>landing\<close> (lines 22-104): the old peer is
  destroyed, a new one is created and its callbacks registered.\<close>

definition run_effect :: "state \<Rightarrow> state" where
  "run_effect s =
    (let s1 = (case peerRef s of Some q \<Rightarrow> emit (DestroyPeer q) s | None \<Rightarrow> s);
         p = nextId s1
     in (emit (NewPeer p) s1)
          \<lparr>peerRef := Some p, peerHandlers := (peerHandlers s1)(p \<mapsto> (mode s1, stream s1)),
           effectCleanup := Some (p, stream s1), nextId := Suc p\<rparr>)"

text \<open>What React does after a callback when \<open>mode\<close> has changed from \<open>old\<close>: the video
  element of the old page is unmounted and the one of the new page mounted, the previous
  cleanup runs, then the effect.\<close>

definition commit :: "mode \<Rightarrow> state \<Rightarrow> state" where
  "commit old s =
    (if mode s = old then s
     else
       let s1 = s\<lparr>videoRef := (if mode s = Landing then None else Some None)\<rparr>;
           s2 = (case effectCleanup s1 of
                   Some (p, cap) \<Rightarrow> (cleanup p cap s1)\<lparr>effectCleanup := None\<rparr>
                 | None \<Rightarrow> s1)
       in if mode s2 = Landing then s2 else run_effect s2)"

definition setMode :: "mode \<Rightarrow> state \<Rightarrow> state" where
  "setMode m s = commit (mode s) (s\<lparr>mode := m\<rparr>)"

definition do_disconnect :: "state \<Rightarrow> state" where
  "do_disconnect s = commit (mode s) (disconnect s)"


subsection \<open>Callbacks registered on library objects\<close>

text \<open>\<open>peer.on('open')\<close> (lines 31-35) and \<open>peer.on('error')\<close> (lines 37-41).\<close>

definition peer_open :: "string \<Rightarrow> state \<Rightarrow> state" where
  "peer_open ident s = s\<lparr>peerId := ident, error := None\<rparr>"

definition peer_error :: "string \<Rightarrow> state \<Rightarrow> state" where
  "peer_error ty s =
     s\<lparr>error := Some (''Connection error: '' @ ty), connectionStatus := Disconnected\<rparr>"

text \<open>\<open>peer.on('connection')\<close> (lines 45-64), registered in share mode only; the new
  connection gets callbacks that hold the effect's \<open>stopScreenShare\<close>.\<close>

definition peer_connection :: "nat option \<Rightarrow> state \<Rightarrow> state" where
  "peer_connection cap s =
    (let c = nextId s
     in s\<lparr>connectionRef := Some c, connHandlers := (connHandlers s)(c \<mapsto> ShareConn cap),
          nextId := Suc c\<rparr>)"

text \<open>\<open>peer.on('call')\<close>: in share mode it only logs (lines 67-70); in view mode it
  answers and registers the call's callbacks (lines 75-101).\<close>

definition peer_call :: "mode \<Rightarrow> state \<Rightarrow> state" where
  "peer_call m s =
    (if m = View
     then let k = nextId s
          in (emit (AnswerCall k) s)
               \<lparr>callRef := Some k, callHandlers := (callHandlers s)(k \<mapsto> ViewCall),
                nextId := Suc k\<rparr>
     else s)"

text \<open>\<open>conn.on('open')\<close> (lines 49-52 and 203-206); the library has set \<open>conn.open\<close>.\<close>

definition conn_open :: "nat \<Rightarrow> state \<Rightarrow> state" where
  "conn_open c s = s\<lparr>openConns := insert c (openConns s), connectionStatus := Connected\<rparr>"

text \<open>\<open>conn.on('close')\<close>: share mode (lines 54-58), view mode (lines 208-214).\<close>

definition conn_close :: "conn_handler \<Rightarrow> nat \<Rightarrow> state \<Rightarrow> state" where
  "conn_close h c s =
    (let s1 = s\<lparr>openConns := openConns s - {c}, connectionStatus := Disconnected\<rparr>
     in case h of
          ShareConn cap \<Rightarrow> stopScreenShare cap s1
        | ViewConn \<Rightarrow> (case videoRef s1 of Some _ \<Rightarrow> s1\<lparr>videoRef := Some None\<rparr> | None \<Rightarrow> s1))"

text \<open>\<open>conn.on('error')\<close>: share mode (lines 60-63), view mode (lines 216-220).\<close>

definition conn_error :: "conn_handler \<Rightarrow> string \<Rightarrow> state \<Rightarrow> state" where
  "conn_error h msg s =
    (case h of
       ShareConn cap \<Rightarrow> s\<lparr>error := Some (''Connection error: '' @ msg)\<rparr>
     | ViewConn \<Rightarrow> s\<lparr>error := Some (''Connection error: '' @ msg),
                      connectionStatus := Disconnected\<rparr>)"

text \<open>The viewer's call callbacks (lines 82-100) and the sharer's (lines 149-152).\<close>

definition call_stream :: "call_handler \<Rightarrow> nat \<Rightarrow> state \<Rightarrow> state" where
  "call_stream h m s =
    (case h of
       ViewCall \<Rightarrow> (case videoRef s of Some _ \<Rightarrow> s\<lparr>videoRef := Some (Some m)\<rparr> | None \<Rightarrow> s)
     | ShareCall \<Rightarrow> s)"

definition call_close :: "call_handler \<Rightarrow> state \<Rightarrow> state" where
  "call_close h s =
    (case h of
       ViewCall \<Rightarrow>
         (case videoRef s of Some _ \<Rightarrow> s\<lparr>videoRef := Some None\<rparr> | None \<Rightarrow> s)
           \<lparr>connectionStatus := Disconnected\<rparr>
     | ShareCall \<Rightarrow> s)"

definition call_error :: "string \<Rightarrow> state \<Rightarrow> state" where
  "call_error msg s = s\<lparr>error := Some (''Call error: '' @ msg)\<rparr>"

text \<open>The clipboard promise (lines 232-239) and the timer it starts.\<close>

definition clipboard_written :: "state \<Rightarrow> state" where
  "clipboard_written s = s\<lparr>copied := True\<rparr>"

definition clipboard_failed :: "state \<Rightarrow> state" where
  "clipboard_failed s = s\<lparr>error := Some ''Failed to copy to clipboard''\<rparr>"

definition copied_timeout :: "state \<Rightarrow> state" where
  "copied_timeout s = s\<lparr>copied := False\<rparr>"

subsection \<open>Events\<close>

text \<open>
  The component is driven by the buttons and the input it renders and by the callbacks the
  libraries invoke. A button exists only while the page that holds it is rendered (lines
  262-517), so a press is possible only then; a library callback runs only if it has been
  registered on the object that fires, and a destroyed peer fires nothing. A press runs the
  function of the latest render, so its closure holds the current \<open>stream\<close>; after every
  callback React commits the new state, which runs the effect when \<open>mode\<close> has changed.
\<close>

datatype event =
    SelectShare | SelectView          \<comment> \<open>the two buttons of the landing page\<close>
  | SetRemotePeerId string            \<comment> \<open>typing in the viewer's input\<close>
  | ClickConnect "string option"      \<comment> \<open>the argument is \<open>thrown\<close> of \<open>connectToPeer\<close>\<close>
  | ClickCopy | ClickStart | ClickStop | ClickDisconnect
  | PeerOpen nat string | PeerError nat string | PeerConnection nat | PeerCall nat
  | ConnOpened nat | ConnClosed nat | ConnErr nat string
  | CallStream nat nat | CallClosed nat | CallErr nat string
  | TrackEnded nat                    \<comment> \<open>\<open>onended\<close> of a captured stream\<close>
  | AcquireOk nat | AcquireFail nat   \<comment> \<open>\<open>getDisplayMedia\<close> settles\<close>
  | ClipboardOk | ClipboardFail | CopiedTimeout

text \<open>The peers created and not destroyed, after a record of library calls (newest
  first).\<close>

fun live_peers :: "effect list \<Rightarrow> nat list" where
  "live_peers [] = []"
| "live_peers (NewPeer p # es) = p # live_peers es"
| "live_peers (DestroyPeer p # es) = removeAll p (live_peers es)"
| "live_peers (e # es) = live_peers es"

fun step :: "event \<Rightarrow> state \<Rightarrow> state" where
  "step SelectShare s = (if mode s = Landing then setMode Share s else s)"
| "step SelectView s = (if mode s = Landing then setMode View s else s)"
| "step (SetRemotePeerId t) s =
     (if mode s = View \<and> connectionStatus s = Disconnected then s\<lparr>remotePeerId := t\<rparr> else s)"
| "step (ClickConnect thrown) s =
     (if mode s = View \<and> connectionStatus s = Disconnected \<and> remotePeerId s \<noteq> []
      then connectToPeer thrown s else s)"
| "step ClickCopy s = (if mode s = Share \<and> peerId s \<noteq> [] then copyPeerId s else s)"
| "step ClickStart s =
     (if mode s = Share \<and> connectionStatus s = Connected \<and> stream s = None
      then startScreenShare (stream s) s else s)"
| "step ClickStop s =
     (if mode s = Share \<and> stream s \<noteq> None then stopScreenShare (stream s) s else s)"
| "step ClickDisconnect s = (if mode s \<noteq> Landing then do_disconnect s else s)"
| "step (PeerOpen p ident) s =
     (if p \<in> set (live_peers (trace s)) \<and> peerHandlers s p \<noteq> None
      then peer_open ident s else s)"
| "step (PeerError p ty) s =
     (if p \<in> set (live_peers (trace s)) \<and> peerHandlers s p \<noteq> None
      then peer_error ty s else s)"
| "step (PeerConnection p) s =
     (if p \<in> set (live_peers (trace s))
      then (case peerHandlers s p of
              Some (Share, cap) \<Rightarrow> peer_connection cap s
            | _ \<Rightarrow> s)
      else s)"
| "step (PeerCall p) s =
     (if p \<in> set (live_peers (trace s))
      then (case peerHandlers s p of Some (m, cap) \<Rightarrow> peer_call m s | None \<Rightarrow> s)
      else s)"
| "step (ConnOpened c) s =
     (case connHandlers s c of Some h \<Rightarrow> conn_open c s | None \<Rightarrow> s)"
| "step (ConnClosed c) s =
     (case connHandlers s c of Some h \<Rightarrow> conn_close h c s | None \<Rightarrow> s)"
| "step (ConnErr c msg) s =
     (case connHandlers s c of Some h \<Rightarrow> conn_error h msg s | None \<Rightarrow> s)"
| "step (CallStream k m) s =
     (case callHandlers s k of Some h \<Rightarrow> call_stream h m s | None \<Rightarrow> s)"
| "step (CallClosed k) s =
     (case callHandlers s k of Some h \<Rightarrow> call_close h s | None \<Rightarrow> s)"
| "step (CallErr k msg) s =
     (case callHandlers s k of Some h \<Rightarrow> call_error msg s | None \<Rightarrow> s)"
| "step (TrackEnded m) s =
     (case endedHandlers s m of Some cap \<Rightarrow> stopScreenShare cap s | None \<Rightarrow> s)"
| "step (AcquireOk n) s =
     (case pending s n of
        Some cap \<Rightarrow> startScreenShare_resolved cap n (s\<lparr>pending := (pending s)(n := None)\<rparr>)
      | None \<Rightarrow> s)"
| "step (AcquireFail n) s =
     (case pending s n of
        Some cap \<Rightarrow> startScreenShare_rejected (s\<lparr>pending := (pending s)(n := None)\<rparr>)
      | None \<Rightarrow> s)"
| "step ClipboardOk s = clipboard_written s"
| "step ClipboardFail s = clipboard_failed s"
| "step CopiedTimeout s = copied_timeout s"

text \<open>A run handles the events of a list from left to right.\<close>

fun run :: "state \<Rightarrow> event list \<Rightarrow> state" where
  "run s [] = s"
| "run s (e # es) = run (step e s) es"

subsection \<open>States and properties the results speak about\<close>

text \<open>The idle state: the landing page with every cell that \<open>disconnect\<close> writes at its
  initial value and nothing held in the refs.\<close>

definition idle :: "state \<Rightarrow> bool" where
  "idle s \<longleftrightarrow> mode s = Landing \<and> remotePeerId s = [] \<and> connectionStatus s = Disconnected \<and>
     error s = None \<and> stream s = None \<and> videoRef s = None \<and> connectionRef s = None \<and>
     callRef s = None"

text \<open>The capture handle, and every capture request still pending, belongs to the
  share page.\<close>

definition capture_inv :: "state \<Rightarrow> bool" where
  "capture_inv s \<longleftrightarrow>
     (stream s \<noteq> None \<longrightarrow> mode s = Share) \<and> (\<forall>n. pending s n \<noteq> None \<longrightarrow> mode s = Share)"

text \<open>A record of library calls creates its peers one at a time when every
  \<open>new Peer()\<close> in it was made with no peer alive.\<close>

fun peers_ok :: "effect list \<Rightarrow> bool" where
  "peers_ok [] = True"
| "peers_ok (NewPeer p # es) = (live_peers es = [] \<and> peers_ok es)"
| "peers_ok (e # es) = peers_ok es"

definition peer_inv :: "state \<Rightarrow> bool" where
  "peer_inv s \<longleftrightarrow>
     peers_ok (trace s) \<and>
     (case effectCleanup s of
        None \<Rightarrow> mode s = Landing \<and> live_peers (trace s) = []
      | Some pc \<Rightarrow> mode s \<noteq> Landing \<and> live_peers (trace s) = [fst pc])"

text \<open>Concrete sessions. A sharer picks its role, its peer opens as \<open>abc\<close>, a viewer's
  connection arrives and opens; then the sharer starts sharing and the capture is granted.\<close>

definition connected_sharer :: state where
  "connected_sharer = run init_state
     [SelectShare, PeerOpen 0 ''abc'', PeerConnection 0, ConnOpened 1]"

definition sharing_state :: state where
  "sharing_state = run connected_sharer [ClickStart, AcquireOk 2]"

text \<open>A second viewer connects to the connected sharer, and its connection opens.\<close>

definition two_viewers :: state where
  "two_viewers = run connected_sharer [PeerConnection 0, ConnOpened 2]"

text \<open>The sharer presses Disconnect while the capture prompt is still open, and the
  capture is granted afterwards.\<close>

definition left_while_pending :: state where
  "left_while_pending = run connected_sharer [ClickStart, ClickDisconnect, AcquireOk 2]"

text \<open>A viewer whose peer has opened, before and after it connects to \<open>abc\<close>.\<close>

definition viewer_ready :: state where
  "viewer_ready = run init_state [SelectView, PeerOpen 0 ''v'']"

definition viewer_connected :: state where
  "viewer_connected = run viewer_ready [SetRemotePeerId ''abc'', ClickConnect None, ConnOpened 1]"

text \<open>A sharer session that was given the identity \<open>abc\<close> and then disconnected.\<close>

definition after_session :: state where
  "after_session = run init_state [SelectShare, PeerOpen 0 ''abc'', ClickDisconnect]"

section \<open>Basic facts\<close>

lemmas handler_defs = emit_def stopScreenShare_def startScreenShare_def startScreenShare_resolved_def
  startScreenShare_rejected_def connectToPeer_def copyPeerId_def disconnect_def cleanup_def
  run_effect_def commit_def setMode_def do_disconnect_def peer_open_def peer_error_def
  peer_connection_def peer_call_def conn_open_def conn_close_def conn_error_def call_stream_def
  call_close_def call_error_def clipboard_written_def clipboard_failed_def copied_timeout_def

lemmas run_defs = connected_sharer_def sharing_state_def left_while_pending_def viewer_ready_def
  viewer_connected_def after_session_def two_viewers_def init_state_def

lemma stopScreenShare_frame [simp]:
  "mode (stopScreenShare cap s) = mode s"
  "peerId (stopScreenShare cap s) = peerId s"
  "remotePeerId (stopScreenShare cap s) = remotePeerId s"
  "connectionStatus (stopScreenShare cap s) = connectionStatus s"
  "copied (stopScreenShare cap s) = copied s"
  "error (stopScreenShare cap s) = error s"
  "peerRef (stopScreenShare cap s) = peerRef s"
  "connectionRef (stopScreenShare cap s) = connectionRef s"
  "openConns (stopScreenShare cap s) = openConns s"
  "nextId (stopScreenShare cap s) = nextId s"
  "effectCleanup (stopScreenShare cap s) = effectCleanup s"
  "peerHandlers (stopScreenShare cap s) = peerHandlers s"
  "connHandlers (stopScreenShare cap s) = connHandlers s"
  "callHandlers (stopScreenShare cap s) = callHandlers s"
  "endedHandlers (stopScreenShare cap s) = endedHandlers s"
  "pending (stopScreenShare cap s) = pending s"
  by (simp_all add: stopScreenShare_def emit_def Let_def split: option.splits)

text \<open>The \<open>stream\<close> cell is cleared only by a closure that was built with a stream.\<close>

lemma stopScreenShare_cells [simp]:
  "stream (stopScreenShare cap s) = (if cap = None then stream s else None)"
  "callRef (stopScreenShare cap s) = None"
  "videoRef (stopScreenShare cap s) = (if videoRef s = None then None else Some None)"
  by (auto simp add: stopScreenShare_def emit_def Let_def split: option.splits)

lemma stopScreenShare_trace:
  "trace (stopScreenShare cap s) =
     (case callRef s of Some k \<Rightarrow> [CloseCall k] | None \<Rightarrow> []) @
     (case videoRef s of Some (Some v) \<Rightarrow> [StopTracks v] | _ \<Rightarrow> []) @
     (case cap of Some m \<Rightarrow> [StopTracks m] | None \<Rightarrow> []) @ trace s"
  by (simp add: stopScreenShare_def emit_def Let_def split: option.splits)

lemma disconnect_cells [simp]:
  "mode (disconnect s) = Landing"
  "remotePeerId (disconnect s) = []"
  "connectionStatus (disconnect s) = Disconnected"
  "error (disconnect s) = None"
  "stream (disconnect s) = None"
  "connectionRef (disconnect s) = None"
  "callRef (disconnect s) = None"
  "peerId (disconnect s) = peerId s"
  "copied (disconnect s) = copied s"
  "effectCleanup (disconnect s) = effectCleanup s"
  "videoRef (disconnect s) = (if videoRef s = None then None else Some None)"
  by (auto simp add: disconnect_def emit_def Let_def split: option.splits)

lemma cleanup_cells [simp]:
  "mode (cleanup p cap s) = mode s"
  "remotePeerId (cleanup p cap s) = remotePeerId s"
  "connectionStatus (cleanup p cap s) = connectionStatus s"
  "error (cleanup p cap s) = error s"
  "peerId (cleanup p cap s) = peerId s"
  "copied (cleanup p cap s) = copied s"
  "stream (cleanup p cap s) = (if cap = None then stream s else None)"
  "connectionRef (cleanup p cap s) = connectionRef s"
  "callRef (cleanup p cap s) = None"
  "videoRef (cleanup p cap s) = (if videoRef s = None then None else Some None)"
  by (auto simp add: cleanup_def emit_def Let_def split: option.splits)

lemma do_disconnect_cells:
  assumes "mode s \<noteq> Landing"
  shows "mode (do_disconnect s) = Landing"
    "remotePeerId (do_disconnect s) = []"
    "connectionStatus (do_disconnect s) = Disconnected"
    "error (do_disconnect s) = None"
    "stream (do_disconnect s) = None"
    "connectionRef (do_disconnect s) = None"
    "callRef (do_disconnect s) = None"
    "videoRef (do_disconnect s) = None"
    "effectCleanup (do_disconnect s) = None"
    "peerId (do_disconnect s) = peerId s"
    "copied (do_disconnect s) = copied s"
  using assms by (simp_all add: do_disconnect_def commit_def Let_def split: option.splits)

lemma disconnect_trace:
  "trace (disconnect s) =
     (case videoRef s of Some (Some v) \<Rightarrow> [StopTracks v] | _ \<Rightarrow> []) @
     (case stream s of Some m \<Rightarrow> [StopTracks m] | None \<Rightarrow> []) @
     (case callRef s of Some k \<Rightarrow> [CloseCall k] | None \<Rightarrow> []) @
     (case connectionRef s of Some c \<Rightarrow> [CloseConn c] | None \<Rightarrow> []) @ trace s"
  by (simp add: disconnect_def stopScreenShare_trace emit_def Let_def split: option.splits)

lemma cleanup_trace:
  "trace (cleanup p cap s) =
     DestroyPeer p #
     (case callRef s of Some k \<Rightarrow> [CloseCall k] | None \<Rightarrow> []) @
     (case videoRef s of Some (Some v) \<Rightarrow> [StopTracks v] | _ \<Rightarrow> []) @
     (case cap of Some m \<Rightarrow> [StopTracks m] | None \<Rightarrow> []) @
     (case callRef s of Some k \<Rightarrow> [CloseCall k] | None \<Rightarrow> []) @
     (case connectionRef s of Some c \<Rightarrow> [CloseConn c] | None \<Rightarrow> []) @ trace s"
  by (simp add: cleanup_def stopScreenShare_trace emit_def Let_def split: option.splits)

lemma do_disconnect_trace:
  assumes "mode s \<noteq> Landing"
  shows "trace (do_disconnect s) =
     (case effectCleanup s of
        Some (p, cap) \<Rightarrow> DestroyPeer p # (case cap of Some m \<Rightarrow> [StopTracks m] | None \<Rightarrow> [])
      | None \<Rightarrow> []) @ trace (disconnect s)"
  using assms
  by (simp add: do_disconnect_def commit_def cleanup_trace Let_def split: option.splits)

section \<open>The capture handle and the role\<close>

text \<open>The continuation of \<open>startScreenShare\<close> stores the stream whatever the page is by
  then: nothing after the \<open>await\<close> looks at \<open>mode\<close>.\<close>

lemma acquire_ok_sets_stream:
  "pending s n = Some cap \<Longrightarrow>
     stream (step (AcquireOk n) s) = Some n \<and> mode (step (AcquireOk n) s) = mode s"
  by (auto simp add: startScreenShare_resolved_def emit_def Let_def split: option.splits)

text \<open>The handle stays on the share page along every run in which Disconnect is not
  pressed while a capture request is pending.\<close>

lemma capture_inv_init: "capture_inv init_state"
  by (simp add: capture_inv_def init_state_def)

lemma setMode_capture [simp]:
  "stream (setMode m s) = (if m = mode s then stream s else
      case effectCleanup s of Some (p, Some x) \<Rightarrow> None | _ \<Rightarrow> stream s)"
  "pending (setMode m s) = pending s"
  "mode (setMode m s) = m"
  by (auto simp add: setMode_def commit_def run_effect_def cleanup_def emit_def Let_def
      split: option.splits)

lemma teardown_pending [simp]:
  "pending (disconnect s) = pending s"
  "pending (cleanup p cap s) = pending s"
  by (simp_all add: disconnect_def cleanup_def emit_def Let_def split: option.splits)

lemma capture_inv_step:
  assumes "capture_inv s" and "e = ClickDisconnect \<longrightarrow> pending s = Map.empty"
  shows "capture_inv (step e s)"
proof (cases e)
  case ClickDisconnect
  with assms show ?thesis
    by (cases "mode s = Landing")
       (auto simp add: capture_inv_def do_disconnect_def commit_def Let_def split: option.splits)
next
  case (AcquireOk n)
  with assms(1) show ?thesis
    by (auto simp add: capture_inv_def startScreenShare_resolved_def emit_def Let_def
        split: option.splits if_splits)
next
  case SelectShare
  with assms(1) show ?thesis by (auto simp add: capture_inv_def split: option.splits)
next
  case SelectView
  with assms(1) show ?thesis by (auto simp add: capture_inv_def split: option.splits)
qed (use assms(1) in \<open>auto simp add: capture_inv_def connectToPeer_def copyPeerId_def emit_def
      startScreenShare_def peer_open_def peer_error_def peer_connection_def peer_call_def
      conn_open_def conn_close_def conn_error_def call_stream_def call_close_def call_error_def
      startScreenShare_rejected_def clipboard_written_def clipboard_failed_def
      copied_timeout_def Let_def
      split: option.splits conn_handler.splits call_handler.splits mode.splits if_splits\<close>)

text \<open>
  Claim C1: for every sequence of user intents and peer events, whenever the capture stream
  handle is non-null the mode is \<open>share\<close>; no viewer or idle state holds a live capture.

  The code leaves the share page with the handle set on the following sequence: the sharer
  is connected, presses Start Sharing, presses Disconnect while \<open>getDisplayMedia\<close> is still
  pending, and the request is then granted. The resumed \<open>startScreenShare\<close> calls
  \<open>setStream(mediaStream)\<close> on the landing page, and the tracks of that stream are never
  stopped.
\<close>

theorem capture_outlives_share_role:
  "mode left_while_pending = Landing \<and> stream left_while_pending = Some 2 \<and>
   StopTracks 2 \<notin> set (trace left_while_pending)"
  by (simp add: run_defs handler_defs)

section \<open>Closing of the link while sharing\<close>

text \<open>A \<open>close\<close> callback of a share-mode connection whose closure was built while
  \<open>stream\<close> was null leaves the \<open>stream\<close> cell as it is.\<close>

lemma share_close_keeps_stream:
  "connHandlers s c = Some (ShareConn None) \<Longrightarrow> stream (step (ConnClosed c) s) = stream s"
  by (simp add: conn_close_def Let_def)

text \<open>
  Claim C2: when the connection reports closed while the sharer is connected and sharing,
  the media call is closed, the tracks of the capture stream are stopped and the handle
  cleared, and the connection status becomes disconnected.

  On the session \<open>sharing_state\<close> the code closes the call, stops the tracks (through the
  video element) and sets the status, but the \<open>stream\<close> cell keeps the handle: the callback
  was registered by the effect, which ran when \<open>stream\<close> was null, and the
  \<open>stopScreenShare\<close> it holds skips \<open>setStream(null)\<close>.
\<close>

theorem link_closed_keeps_stream_handle:
  "connectionStatus sharing_state = Connected \<and> stream sharing_state = Some 2 \<and>
   callRef sharing_state = Some 3 \<and>
   connectionStatus (step (ConnClosed 1) sharing_state) = Disconnected \<and>
   CloseCall 3 \<in> set (trace (step (ConnClosed 1) sharing_state)) \<and>
   StopTracks 2 \<in> set (trace (step (ConnClosed 1) sharing_state)) \<and>
   stream (step (ConnClosed 1) sharing_state) = Some 2"
  by (simp add: run_defs handler_defs)

section \<open>Connecting with an empty remote identity\<close>

text \<open>At a viewer that has typed nothing, \<open>connectToPeer\<close> leaves \<open>error\<close> null: the claim
  that an error is reported fails there.\<close>

theorem connect_empty_reports_nothing:
  "remotePeerId viewer_ready = [] \<and> connectionStatus viewer_ready = Disconnected \<and>
   error (connectToPeer None viewer_ready) = None \<and>
   error (step (ClickConnect None) viewer_ready) = None"
  by (simp add: run_defs handler_defs)

text \<open>
  Claim C3, as the code has it: when \<open>connectToPeer\<close> is invoked with an empty
  \<open>remotePeerId\<close> it returns at once and the button is disabled, so the whole state,
  including the record of library calls, the status and \<open>error\<close>, is unchanged: no
  connection attempt is made, the status stays as it was, and no error is reported.
\<close>

theorem connect_empty_noop:
  "remotePeerId s = [] \<Longrightarrow> connectToPeer thrown s = s \<and> step (ClickConnect thrown) s = s"
  by (simp add: connectToPeer_def)

theorem connect_empty_noop_witness:
  "remotePeerId viewer_ready = [] \<and> connectToPeer None viewer_ready = viewer_ready \<and>
   step (ClickConnect None) viewer_ready = viewer_ready"
proof -
  have h: "remotePeerId viewer_ready = []" by (simp add: run_defs handler_defs)
  from connect_empty_noop [OF h, of None] h show ?thesis by simp
qed

section \<open>Failure of the capture request\<close>

lemma acquire_fail_frame:
  "pending s n = Some cap \<Longrightarrow>
     error (step (AcquireFail n) s) =
       Some ''Failed to access screen. Please make sure you grant permission.'' \<and>
     stream (step (AcquireFail n) s) = stream s \<and>
     connectionStatus (step (AcquireFail n) s) = connectionStatus s \<and>
     mode (step (AcquireFail n) s) = mode s \<and>
     trace (step (AcquireFail n) s) = trace s"
  by (simp add: startScreenShare_rejected_def)

text \<open>
  Claim C4: if \<open>getDisplayMedia\<close> fails while the sharer is connected, the failure becomes
  an \<open>error\<close> message, the capture handle stays null and the status stays connected.
  The sharer presses Start Sharing in a connected state with no capture; the request made
  there is the one numbered \<open>nextId s\<close>, and it is rejected.
\<close>

theorem acquire_failure_keeps_connected:
  assumes "mode s = Share" and "connectionStatus s = Connected" and "stream s = None"
  shows "error (step (AcquireFail (nextId s)) (step ClickStart s)) =
           Some ''Failed to access screen. Please make sure you grant permission.'' \<and>
         stream (step (AcquireFail (nextId s)) (step ClickStart s)) = None \<and>
         connectionStatus (step (AcquireFail (nextId s)) (step ClickStart s)) = Connected"
proof -
  let ?s1 = "step ClickStart s"
  have p: "pending ?s1 (nextId s) = Some None"
    using assms by (simp add: startScreenShare_def emit_def Let_def)
  have "stream ?s1 = None" and "connectionStatus ?s1 = Connected"
    using assms by (simp_all add: startScreenShare_def emit_def Let_def)
  with acquire_fail_frame [OF p] show ?thesis by simp
qed

theorem acquire_failure_keeps_connected_witness:
  "mode connected_sharer = Share \<and> connectionStatus connected_sharer = Connected \<and>
   stream connected_sharer = None \<and> nextId connected_sharer = 2 \<and>
   error (step (AcquireFail 2) (step ClickStart connected_sharer)) =
     Some ''Failed to access screen. Please make sure you grant permission.'' \<and>
   stream (step (AcquireFail 2) (step ClickStart connected_sharer)) = None \<and>
   connectionStatus (step (AcquireFail 2) (step ClickStart connected_sharer)) = Connected"
proof -
  have h: "mode connected_sharer = Share" "connectionStatus connected_sharer = Connected"
    "stream connected_sharer = None" and n: "nextId connected_sharer = 2"
    by (simp_all add: run_defs handler_defs)
  from acquire_failure_keeps_connected [OF h] h n show ?thesis by simp
qed

section \<open>Error events on a connection\<close>

text \<open>On a connected viewer an \<open>error\<close> event alone moves the status to disconnected.\<close>

theorem viewer_error_changes_phase:
  "connectionStatus viewer_connected = Connected \<and> 1 \<in> openConns viewer_connected \<and>
   connectionStatus (step (ConnErr 1 ''failed'') viewer_connected) = Disconnected"
  by (simp add: run_defs handler_defs)

text \<open>
  Claim C5, as the code has it: an \<open>error\<close> event on a connection sets \<open>error\<close> and makes
  no library call, so it never closes the connection; on a connection accepted by the
  sharer it leaves the status unchanged, and on a connection made by the viewer it also
  sets the status to disconnected.
\<close>

theorem conn_error_effect:
  "connHandlers s c = Some h \<Longrightarrow>
     error (step (ConnErr c msg) s) = Some (''Connection error: '' @ msg) \<and>
     trace (step (ConnErr c msg) s) = trace s \<and>
     openConns (step (ConnErr c msg) s) = openConns s \<and>
     connectionStatus (step (ConnErr c msg) s) =
       (case h of ShareConn cap \<Rightarrow> connectionStatus s | ViewConn \<Rightarrow> Disconnected)"
  by (simp add: conn_error_def split: conn_handler.splits)

theorem conn_error_effect_witness:
  "connHandlers sharing_state 1 = Some (ShareConn None) \<and>
   error (step (ConnErr 1 ''failed'') sharing_state) = Some ''Connection error: failed'' \<and>
   trace (step (ConnErr 1 ''failed'') sharing_state) = trace sharing_state \<and>
   openConns (step (ConnErr 1 ''failed'') sharing_state) = openConns sharing_state \<and>
   connectionStatus (step (ConnErr 1 ''failed'') sharing_state) = connectionStatus sharing_state"
proof -
  have h: "connHandlers sharing_state 1 = Some (ShareConn None)"
    by (simp add: run_defs handler_defs)
  from conn_error_effect [OF h, of "''failed''"] h show ?thesis by simp
qed

section \<open>End of the captured stream\<close>

text \<open>An \<open>onended\<close> callback whose closure was built while \<open>stream\<close> was null leaves the
  \<open>stream\<close> cell as it is.\<close>

lemma track_ended_keeps_stream:
  "endedHandlers s m = Some None \<Longrightarrow> stream (step (TrackEnded m) s) = stream s"
  by simp

text \<open>
  Claim C6: when the end-of-stream observer fires while the sharer is connected and
  sharing, the capture handle becomes null, the media call is closed and the status stays
  connected.

  On the session \<open>sharing_state\<close> the code closes the call and keeps the status, but the
  \<open>stream\<close> cell keeps the handle: \<open>onended\<close> was set inside the \<open>startScreenShare\<close> of the
  render in which Start Sharing was pressed, where \<open>stream\<close> was null, and the
  \<open>stopScreenShare\<close> of that render skips \<open>setStream(null)\<close>.
\<close>

theorem track_ended_keeps_stream_handle:
  "connectionStatus sharing_state = Connected \<and> stream sharing_state = Some 2 \<and>
   callRef sharing_state = Some 3 \<and>
   endedHandlers sharing_state 2 = Some None \<and>
   connectionStatus (step (TrackEnded 2) sharing_state) = Connected \<and>
   CloseCall 3 \<in> set (trace (step (TrackEnded 2) sharing_state)) \<and>
   callRef (step (TrackEnded 2) sharing_state) = None \<and>
   stream (step (TrackEnded 2) sharing_state) = Some 2"
  by (simp add: run_defs handler_defs)

section \<open>One link at a time\<close>

text \<open>Choosing a role destroys the peer in \<open>peerRef\<close> before it creates the new one
  (lines 24-29), and \<open>connectToPeer\<close> closes the connection in \<open>connectionRef\<close> before it
  asks for the new one (lines 192-201).\<close>

lemma run_effect_destroys_first:
  "peerRef s = Some q \<Longrightarrow> trace (run_effect s) = NewPeer (nextId s) # DestroyPeer q # trace s"
  by (simp add: run_effect_def emit_def Let_def)

lemma connectToPeer_closes_first:
  "remotePeerId s \<noteq> [] \<Longrightarrow> peerRef s = Some p \<Longrightarrow> connectionRef s = Some c \<Longrightarrow>
     trace (connectToPeer None s) = Connect p (remotePeerId s) (nextId s) # CloseConn c # trace s \<and>
     c \<notin> openConns (connectToPeer None s) \<and>
     connectionRef (connectToPeer None s) = Some (nextId s)"
  by (simp add: connectToPeer_def emit_def Let_def)

text \<open>Along every run at most one peer is alive, and each was created with none alive.\<close>

lemma peer_inv_init: "peer_inv init_state"
  by (simp add: peer_inv_def init_state_def)

lemma quiet_prefix [simp]:
  "live_peers ((case x of Some k \<Rightarrow> [CloseCall k] | None \<Rightarrow> []) @ es) = live_peers es"
  "peers_ok ((case x of Some k \<Rightarrow> [CloseCall k] | None \<Rightarrow> []) @ es) = peers_ok es"
  "live_peers ((case x of Some k \<Rightarrow> [StopTracks k] | None \<Rightarrow> []) @ es) = live_peers es"
  "peers_ok ((case x of Some k \<Rightarrow> [StopTracks k] | None \<Rightarrow> []) @ es) = peers_ok es"
  "live_peers ((case x of Some k \<Rightarrow> [CloseConn k] | None \<Rightarrow> []) @ es) = live_peers es"
  "peers_ok ((case x of Some k \<Rightarrow> [CloseConn k] | None \<Rightarrow> []) @ es) = peers_ok es"
  "live_peers ((case y of Some (Some v) \<Rightarrow> [StopTracks v] | _ \<Rightarrow> []) @ es) = live_peers es"
  "peers_ok ((case y of Some (Some v) \<Rightarrow> [StopTracks v] | _ \<Rightarrow> []) @ es) = peers_ok es"
  by (simp_all split: option.splits)

lemma stopScreenShare_peers [simp]:
  "live_peers (trace (stopScreenShare cap s)) = live_peers (trace s)"
  "peers_ok (trace (stopScreenShare cap s)) = peers_ok (trace s)"
  by (simp_all add: stopScreenShare_trace)

lemma stopScreenShare_peer_inv: "peer_inv s \<Longrightarrow> peer_inv (stopScreenShare cap s)"
  by (auto simp add: peer_inv_def split: option.splits)

lemma setMode_peer_inv:
  "peer_inv s \<Longrightarrow> mode s = Landing \<Longrightarrow> m \<noteq> Landing \<Longrightarrow> peer_inv (setMode m s)"
  by (auto simp add: peer_inv_def setMode_def commit_def run_effect_def emit_def Let_def
      split: option.splits)

lemma do_disconnect_peer_inv:
  "peer_inv s \<Longrightarrow> mode s \<noteq> Landing \<Longrightarrow> peer_inv (do_disconnect s)"
  by (auto simp add: peer_inv_def do_disconnect_cells do_disconnect_trace disconnect_trace
      split: option.splits)

lemma connectToPeer_peer_inv: "peer_inv s \<Longrightarrow> peer_inv (connectToPeer thrown s)"
  by (auto simp add: peer_inv_def connectToPeer_def emit_def Let_def split: option.splits)

lemma startScreenShare_peer_inv: "peer_inv s \<Longrightarrow> peer_inv (startScreenShare cap s)"
  by (auto simp add: peer_inv_def startScreenShare_def emit_def Let_def split: option.splits)

lemma startScreenShare_resolved_peer_inv:
  "peer_inv s \<Longrightarrow> peer_inv (startScreenShare_resolved cap m (s\<lparr>pending := f\<rparr>))"
  by (auto simp add: peer_inv_def startScreenShare_resolved_def emit_def Let_def
      split: option.splits)

lemma step_peer_inv: "peer_inv s \<Longrightarrow> peer_inv (step e s)"
proof (cases e)
  case SelectShare
  then show "peer_inv s \<Longrightarrow> ?thesis" by (simp add: setMode_peer_inv)
next
  case SelectView
  then show "peer_inv s \<Longrightarrow> ?thesis" by (simp add: setMode_peer_inv)
next
  case (ClickConnect thrown)
  then show "peer_inv s \<Longrightarrow> ?thesis" by (simp add: connectToPeer_peer_inv)
next
  case ClickStart
  then show "peer_inv s \<Longrightarrow> ?thesis" by (simp add: startScreenShare_peer_inv)
next
  case ClickStop
  then show "peer_inv s \<Longrightarrow> ?thesis" by (simp add: stopScreenShare_peer_inv)
next
  case ClickDisconnect
  then show "peer_inv s \<Longrightarrow> ?thesis" by (simp add: do_disconnect_peer_inv)
next
  case (ConnClosed c)
  then show "peer_inv s \<Longrightarrow> ?thesis"
    by (auto simp add: peer_inv_def conn_close_def Let_def
        split: option.splits conn_handler.splits)
next
  case (TrackEnded m)
  then show "peer_inv s \<Longrightarrow> ?thesis"
    by (simp add: stopScreenShare_peer_inv split: option.splits)
next
  case (AcquireOk n)
  then show "peer_inv s \<Longrightarrow> ?thesis"
    by (simp add: startScreenShare_resolved_peer_inv split: option.splits)
qed (auto simp add: peer_inv_def copyPeerId_def emit_def peer_open_def peer_error_def
      peer_connection_def peer_call_def conn_open_def conn_error_def call_stream_def
      call_close_def call_error_def startScreenShare_rejected_def clipboard_written_def
      clipboard_failed_def copied_timeout_def Let_def
      split: option.splits conn_handler.splits call_handler.splits mode.splits)

lemma run_peer_inv: "peer_inv s \<Longrightarrow> peer_inv (run s evs)"
  by (induction evs arbitrary: s) (simp_all add: step_peer_inv)

lemma one_peer_at_a_time:
  "peers_ok (trace (run init_state evs)) \<and> length (live_peers (trace (run init_state evs))) \<le> 1"
proof -
  have "peer_inv (run init_state evs)"
    by (rule run_peer_inv [OF peer_inv_init])
  then show ?thesis
    by (auto simp add: peer_inv_def split: option.splits)
qed

text \<open>The callback for an inbound connection makes no library call: it stores the new
  connection and leaves the one it replaces as it is.\<close>

lemma peer_connection_closes_nothing:
  "trace (peer_connection cap s) = trace s \<and>
   openConns (peer_connection cap s) = openConns s \<and>
   connectionRef (peer_connection cap s) = Some (nextId s)"
  by (simp add: peer_connection_def Let_def)

text \<open>
  Claim C7: at most one signaling link is open at any time; whenever a new link or channel
  is opened, the one open before has been closed or destroyed first.

  On the sharer the code breaks this. While the connection of a first viewer is open, a
  second viewer connects: \<open>peer.on('connection')\<close> (lines 45-47) puts the new connection
  in \<open>connectionRef\<close> and never closes the one it replaces, so once the second connection
  opens two channels are open at once, and the first is no longer held anywhere.
\<close>

theorem second_inbound_channel_left_open:
  "connectionRef connected_sharer = Some 1 \<and> openConns connected_sharer = {1} \<and>
   connectionRef two_viewers = Some 2 \<and>
   1 \<in> openConns two_viewers \<and> 2 \<in> openConns two_viewers \<and>
   CloseConn 1 \<notin> set (trace two_viewers)"
  by (simp add: run_defs handler_defs)

section \<open>Disconnecting\<close>

lemma idle_init: "idle init_state"
  by (simp add: idle_def init_state_def)

lemma idle_after_disconnect: "mode s \<noteq> Landing \<Longrightarrow> idle (step ClickDisconnect s)"
  by (simp add: idle_def do_disconnect_cells)

text \<open>
  Claim C8: \<open>disconnect\<close> is idempotent from the idle state. Invoked there once or twice
  in a row, it leaves the whole state unchanged, the record of library calls included, and
  \<open>error\<close> stays null; every step of it is guarded by a null test, so nothing is thrown.
\<close>

theorem disconnect_idle_twice:
  "idle s \<Longrightarrow> do_disconnect s = s \<and> do_disconnect (do_disconnect s) = s"
  by (simp add: idle_def do_disconnect_def disconnect_def stopScreenShare_def commit_def Let_def)

theorem disconnect_idle_twice_witness:
  "idle after_session \<and> do_disconnect after_session = after_session \<and>
   do_disconnect (do_disconnect after_session) = after_session"
proof -
  have h: "idle after_session" by (simp add: idle_def run_defs handler_defs)
  from disconnect_idle_twice [OF h] h show ?thesis by simp
qed

section \<open>The ways a session ends\<close>






section \<open>Copying the identity\<close>

text \<open>
  Claim C10: if \<open>peerId\<close> is empty, \<open>copyPeerId\<close> does nothing: no clipboard write is
  attempted and the whole state, \<open>copied\<close> and \<open>error\<close> included, is unchanged.
\<close>

theorem copyPeerId_empty_noop:
  "peerId s = [] \<Longrightarrow> copyPeerId s = s \<and> step ClickCopy s = s"
  by (simp add: copyPeerId_def)

theorem copyPeerId_empty_noop_witness:
  "peerId init_state = [] \<and> copyPeerId init_state = init_state \<and>
   step ClickCopy init_state = init_state"
proof -
  have h: "peerId init_state = []" by (simp add: init_state_def)
  from copyPeerId_empty_noop [OF h] h show ?thesis by simp
qed

end
